theory Spec2Isabelle
  imports Complex_Main
begin

section \<open>The lensing fragment shader over exact real arithmetic\<close>

text \<open>
  The program is the GLSL fragment shader \<^verbatim>\<open>fragAug.frag\<close>: one pure evaluation per pixel.
  GLSL \<^verbatim>\<open>float\<close> is modelled as \<^typ>\<open>real\<close>: every operation is the exact one, with no
  rounding, overflow, infinity or NaN. Where GLSL leaves a result undefined (division by
  zero in \<^verbatim>\<open>normalize\<close>, \<^verbatim>\<open>pow\<close> of a negative base, \<^verbatim>\<open>atan(0, 0)\<close>, \<^verbatim>\<open>asin\<close> outside
  \<open>[-1, 1]\<close>, \<^verbatim>\<open>smoothstep\<close> with reversed edges) the model has the value of the HOL term
  written here, and the comment of the definition says so.
\<close>

subsection \<open>Vectors and the GLSL built-ins the shader uses\<close>

datatype vec2 = vec2 (x2: real) (y2: real)

datatype vec3 = vec3 (vx: real) (vy: real) (vz: real)

datatype vec4 = vec4 (wx: real) (wy: real) (wz: real) (ww: real)

text \<open>A \<^verbatim>\<open>mat4\<close> is four columns, as in GLSL.\<close>

datatype mat4 = mat4 (col0: vec4) (col1: vec4) (col2: vec4) (col3: vec4)

definition vadd :: "vec3 \<Rightarrow> vec3 \<Rightarrow> vec3" where
  "vadd a b = vec3 (vx a + vx b) (vy a + vy b) (vz a + vz b)"

definition vsub :: "vec3 \<Rightarrow> vec3 \<Rightarrow> vec3" where
  "vsub a b = vec3 (vx a - vx b) (vy a - vy b) (vz a - vz b)"

text \<open>\<^verbatim>\<open>v * s\<close> and \<^verbatim>\<open>v / s\<close> for a vector \<open>v\<close> and a scalar \<open>s\<close>.\<close>

definition vscale :: "vec3 \<Rightarrow> real \<Rightarrow> vec3" where
  "vscale a s = vec3 (vx a * s) (vy a * s) (vz a * s)"

definition vdiv :: "vec3 \<Rightarrow> real \<Rightarrow> vec3" where
  "vdiv a s = vec3 (vx a / s) (vy a / s) (vz a / s)"

text \<open>\<^verbatim>\<open>vec3(s)\<close>: the scalar in every component.\<close>

definition vsplat :: "real \<Rightarrow> vec3" where
  "vsplat s = vec3 s s s"

definition dot :: "vec3 \<Rightarrow> vec3 \<Rightarrow> real" where
  "dot a b = vx a * vx b + vy a * vy b + vz a * vz b"

definition cross :: "vec3 \<Rightarrow> vec3 \<Rightarrow> vec3" where
  "cross a b = vec3 (vy a * vz b - vz a * vy b)
                    (vz a * vx b - vx a * vz b)
                    (vx a * vy b - vy a * vx b)"

definition vlength :: "vec3 \<Rightarrow> real" where
  "vlength a = sqrt (dot a a)"

text \<open>\<^verbatim>\<open>normalize(v)\<close> is \<open>v / length(v)\<close>; GLSL leaves it undefined for the zero vector,
  where the model gives the zero vector (\<open>x / 0 = 0\<close> in HOL).\<close>

definition normalize_vec :: "vec3 \<Rightarrow> vec3" where
  "normalize_vec a = vdiv a (vlength a)"

definition clamp :: "real \<Rightarrow> real \<Rightarrow> real \<Rightarrow> real" where
  "clamp x lo hi = min (max x lo) hi"

definition mix :: "real \<Rightarrow> real \<Rightarrow> real \<Rightarrow> real" where
  "mix a b t = a * (1 - t) + b * t"

definition vmix :: "vec3 \<Rightarrow> vec3 \<Rightarrow> real \<Rightarrow> vec3" where
  "vmix a b t = vec3 (mix (vx a) (vx b) t) (mix (vy a) (vy b) t) (mix (vz a) (vz b) t)"

text \<open>\<^verbatim>\<open>smoothstep(e0, e1, x)\<close>: Hermite interpolation of the clamped ratio. GLSL leaves it
  undefined for \<open>e0 \<ge> e1\<close>; the model evaluates the same formula there.\<close>

definition smoothstep :: "real \<Rightarrow> real \<Rightarrow> real \<Rightarrow> real" where
  "smoothstep e0 e1 x = (let t = clamp ((x - e0) / (e1 - e0)) 0 1 in t * t * (3 - 2 * t))"

definition fract :: "real \<Rightarrow> real" where
  "fract x = x - of_int \<lfloor>x\<rfloor>"

text \<open>\<^verbatim>\<open>step(edge, x)\<close>.\<close>

definition step_glsl :: "real \<Rightarrow> real \<Rightarrow> real" where
  "step_glsl edge x = (if x < edge then 0 else 1)"

text \<open>\<^verbatim>\<open>pow(x, y)\<close>; GLSL leaves it undefined for \<open>x < 0\<close>, where the model has the value of
  \<open>powr\<close>.\<close>

definition pow :: "real \<Rightarrow> real \<Rightarrow> real" where
  "pow x y = x powr y"

text \<open>The two-argument \<^verbatim>\<open>atan(y, x)\<close>: the angle of the point \<open>(x, y)\<close> in \<open>(-\<pi>, \<pi>]\<close>;
  GLSL leaves it undefined at \<open>x = y = 0\<close>, where the model gives \<open>0\<close>.\<close>

definition atan2 :: "real \<Rightarrow> real \<Rightarrow> real" where
  "atan2 y x =
     (if 0 < x then arctan (y / x)
      else if x < 0 then (if 0 \<le> y then arctan (y / x) + pi else arctan (y / x) - pi)
      else if 0 < y then pi / 2
      else if y < 0 then - pi / 2
      else 0)"

subsection \<open>Black hole constants\<close>

definition r_s :: real where
  "r_s = 1.0"

definition r_ph :: real where
  "r_ph = 1.5 * r_s"

definition b_crit :: real where
  "b_crit = 2.598 * r_s"

subsection \<open>Signed distance to the horizon\<close>

definition sphereSDF :: "vec3 \<Rightarrow> vec3 \<Rightarrow> real \<Rightarrow> real" where
  "sphereSDF p center radius = vlength (vsub p center) - radius"

definition sceneSDF :: "vec3 \<Rightarrow> real" where
  "sceneSDF p = sphereSDF p (vsplat 0.0) r_s"

subsection \<open>Impact parameter and rotation\<close>

definition calcb :: "vec3 \<Rightarrow> vec3 \<Rightarrow> real" where
  "calcb O' D = vlength (cross O' D)"

definition rotateRodrigues :: "vec3 \<Rightarrow> vec3 \<Rightarrow> real \<Rightarrow> vec3" where
  "rotateRodrigues v axis ang =
     vadd (vadd (vscale v (cos ang)) (vscale (cross axis v) (sin ang)))
          (vscale (vscale axis (dot axis v)) (1.0 - cos ang))"


subsection \<open>Deflection model used while marching\<close>

text \<open>The parameters \<open>rs\<close> and \<open>bcrit\<close> are the shader's parameters \<^verbatim>\<open>r_s\<close> and \<^verbatim>\<open>b_crit\<close>,
  which shadow the globals of the same name.\<close>

definition deflectionAngleStable :: "real \<Rightarrow> real \<Rightarrow> real \<Rightarrow> real" where
  "deflectionAngleStable b rs bcrit =
     (let weak = 2.0 * rs / max b (1 / 10 ^ 6);
          distToCrit = b - bcrit;
          scale = 0.08 * bcrit;
          nearFactor = 1.0 + 3.0 * exp (- (distToCrit * distToCrit) / (scale * scale));
          raw = weak * nearFactor;
          saturated = arctan raw * 2.0
      in clamp saturated 0.0 6.0)"

subsection \<open>Ring colour\<close>

definition computeLensedColor :: "real \<Rightarrow> vec3" where
  "computeLensedColor b =
     (let normalized = b / b_crit;
          intensity = exp (- pow (normalized - 1.0) 2.0 * 12.0);
          baseColor = vec3 1.0 0.8 0.6;
          redshift = vec3 0.9 0.45 0.25;
          color = vmix baseColor redshift (smoothstep 1.0 0.3 normalized);
          phBoost = exp (- pow (normalized - r_ph / b_crit) 2.0 * 50.0)
      in vscale color (intensity + 0.6 * phBoost))"

subsection \<open>Lensed starfield background\<close>

definition MAX_ORDERS :: nat where
  "MAX_ORDERS = 5"

definition TWO_PI :: real where
  "TWO_PI = 6.28318530718"

definition hash21 :: "vec2 \<Rightarrow> real" where
  "hash21 p =
     (let p1 = vec2 (fract (x2 p * 123.34)) (fract (y2 p * 345.45));
          dt = x2 p1 * (x2 p1 + 34.345) + y2 p1 * (y2 p1 + 34.345);
          p2 = vec2 (x2 p1 + dt) (y2 p1 + dt)
      in fract (x2 p2 * y2 p2))"

text \<open>\<^verbatim>\<open>asin\<close> is \<open>arcsin\<close>; GLSL leaves it undefined outside \<open>[-1, 1]\<close>.\<close>

definition skyColor :: "vec3 \<Rightarrow> vec3" where
  "skyColor dir =
     (let t = 0.5 * (vy dir + 1.0);
          base = vmix (vec3 0.02 0.02 0.06) (vec3 0.15 0.25 0.5) t;
          uv = vec2 (atan2 (vz dir) (vx dir) / TWO_PI + 0.5)
                    (arcsin (vy dir) / 3.14159265 + 0.5);
          s = hash21 (vec2 (of_int \<lfloor>x2 uv * 1024.0\<rfloor>) (of_int \<lfloor>y2 uv * 1024.0\<rfloor>));
          star = step_glsl 0.9995 s * pow (hash21 (vec2 (x2 uv * 4321.0) (y2 uv * 4321.0))) 10.0
      in vadd base (vsplat star))"

definition deflectionAngleApprox :: "real \<Rightarrow> real \<Rightarrow> real \<Rightarrow> real" where
  "deflectionAngleApprox b rs bcrit =
     (let rel = (b - bcrit) / (0.2 * bcrit);
          rel' = clamp rel (- 5.0) 5.0
      in clamp ((1.0 / (rel' * rel' + 0.001)) * (0.25 * rs)) 0.0 20.0)"

definition rotateAroundAxis :: "vec3 \<Rightarrow> vec3 \<Rightarrow> real \<Rightarrow> vec3" where
  "rotateAroundAxis v axis ang =
     vadd (vadd (vscale v (cos ang)) (vscale (cross axis v) (sin ang)))
          (vscale (vscale axis (dot axis v)) (1.0 - cos ang))"

text \<open>The accumulation loop of \<^verbatim>\<open>sampleLensedSky\<close>,
  \<^verbatim>\<open>for (int n = 0; n <= MAX_ORDERS; ++n)\<close>, on the pair \<open>(accum, totalWeight)\<close>.
  Over the reals \<open>exp\<close> is positive everywhere, so in this model \<^verbatim>\<open>totalWeight\<close> is
  positive after the loop and the last conditional of \<^verbatim>\<open>sampleLensedSky\<close> never takes its
  \<open>skyColor\<close> branch. In \<^verbatim>\<open>float\<close> arithmetic the weights can underflow to zero for
  large \<open>b\<close>, and then it does: what is proved about the result of the loop is proved for
  exact arithmetic only.\<close>

function lensLoop :: "vec3 \<Rightarrow> vec3 \<Rightarrow> real \<Rightarrow> nat \<Rightarrow> vec3 \<times> real \<Rightarrow> vec3 \<times> real" where
  "lensLoop Dn axis b n (accum, totalWeight) =
     (if n \<le> MAX_ORDERS then
        (let baseAlpha = deflectionAngleApprox b r_s b_crit;
             alphaN = baseAlpha + real n * TWO_PI;
             weight = exp (- real n * 4.0);
             closeness = exp (- \<bar>(b - b_crit) / (0.1 * b_crit)\<bar>);
             weight' = weight * closeness;
             bent = rotateAroundAxis Dn axis alphaN;
             sample = skyColor bent
         in lensLoop Dn axis b (n + 1) (vadd accum (vscale sample weight'), totalWeight + weight'))
      else (accum, totalWeight))"
  by pat_completeness auto
termination
  by (relation "measure (\<lambda>(Dn, axis, b, n, acc). MAX_ORDERS + 1 - n)") auto

definition sampleLensedSky :: "vec3 \<Rightarrow> vec3 \<Rightarrow> real \<Rightarrow> vec3" where
  "sampleLensedSky ro D b =
     (let Dn = normalize_vec D in
      if b \<le> b_crit then vsplat 0.0
      else
        (let r = ro;
             axisRaw = cross Dn r;
             axisLen = vlength axisRaw
         in if axisLen < 1 / 10 ^ 6 then skyColor Dn
            else
              (let axis = vdiv axisRaw axisLen;
                   (accum, totalWeight) = lensLoop Dn axis b 0 (vsplat 0.0, 0.0)
               in if totalWeight > 0.0 then vdiv accum totalWeight else skyColor Dn)))"

text \<open>The weight that the loop body gives to order \<open>n\<close> (\<^verbatim>\<open>weight\<close> after
  \<^verbatim>\<open>weight *= closeness\<close>), and the term it adds to \<^verbatim>\<open>accum\<close>.\<close>

definition orderWeight :: "real \<Rightarrow> nat \<Rightarrow> real" where
  "orderWeight b n = exp (- real n * 4.0) * exp (- \<bar>(b - b_crit) / (0.1 * b_crit)\<bar>)"

definition orderSample :: "vec3 \<Rightarrow> vec3 \<Rightarrow> real \<Rightarrow> nat \<Rightarrow> vec3" where
  "orderSample Dn axis b n =
     vscale (skyColor (rotateAroundAxis Dn axis
               (deflectionAngleApprox b r_s b_crit + real n * TWO_PI)))
       (orderWeight b n)"

subsection \<open>Ray marching with integrated bending\<close>

definition MAX_STEPS :: nat where
  "MAX_STEPS = 500"

definition MAX_DIST :: real where
  "MAX_DIST = 100.0"

definition MIN_STEP :: real where
  "MIN_STEP = 0.001"

definition BEND_UPDATE_INTERVAL :: real where
  "BEND_UPDATE_INTERVAL = 2.0"

text \<open>The direction update inside the loop, for the current point \<open>p\<close> and direction \<open>D\<close>:
  the body of \<^verbatim>\<open>if ((i % int(max(1.0, BEND_UPDATE_INTERVAL))) == 0)\<close>.\<close>

definition bendDirection :: "vec3 \<Rightarrow> vec3 \<Rightarrow> vec3" where
  "bendDirection p D =
     (let toCenter = p;
          axisRaw = cross D toCenter;
          axisLen = vlength axisRaw
      in if axisLen > 1 / 10 ^ 6 then
           (let axis = vdiv axisRaw axisLen;
                local_b = vlength (cross toCenter D) / max (1 / 10 ^ 6) (vlength D);
                ang = deflectionAngleStable local_b r_s b_crit;
                r = max (vlength toCenter) (1 / 10 ^ 6);
                falloff = clamp (r_ph / r) 0.0 4.0;
                incremental = 0.18 * ang * (falloff / real MAX_STEPS) * 200.0;
                incremental' = clamp incremental 0.0 1.2
            in normalize_vec (rotateRodrigues D axis incremental'))
         else D)"

text \<open>What the loop leaves behind: the flag \<^verbatim>\<open>hit\<close>, the distance \<^verbatim>\<open>t\<close>, the direction
  \<^verbatim>\<open>D\<close>, and (not a variable of the shader) the number of times the loop body was entered.\<close>

record march_result =
  hit :: bool
  t_final :: real
  D_final :: vec3
  iterations :: nat

text \<open>\<^verbatim>\<open>for (int i = 0; i < MAX_STEPS; ++i)\<close> with its two \<^verbatim>\<open>break\<close>s, from the counter \<open>i\<close>,
  the distance \<open>t\<close> and the direction \<open>D\<close>; \<open>O'\<close> is the ray origin.\<close>

function marchLoop :: "vec3 \<Rightarrow> nat \<Rightarrow> real \<Rightarrow> vec3 \<Rightarrow> march_result" where
  "marchLoop O' i t D =
     (if i < MAX_STEPS then
        (let p = vadd O' (vscale D t);
             d = sceneSDF p
         in if d < 0.001 then \<lparr>hit = True, t_final = t, D_final = D, iterations = i + 1\<rparr>
            else if t > MAX_DIST then
              \<lparr>hit = False, t_final = t, D_final = D, iterations = i + 1\<rparr>
            else
              (let step = max d MIN_STEP;
                   t' = t + step;
                   D' = (if i mod nat \<lfloor>max 1.0 BEND_UPDATE_INTERVAL\<rfloor> = 0
                         then bendDirection p D else D)
               in marchLoop O' (i + 1) t' D'))
      else \<lparr>hit = False, t_final = t, D_final = D, iterations = i\<rparr>)"
  by pat_completeness auto
termination
  by (relation "measure (\<lambda>(O', i, t, D). MAX_STEPS - i)") auto

subsection \<open>The fragment program\<close>

text \<open>The uniforms of a frame. \<^verbatim>\<open>viewMatrix\<close> is declared and never read.\<close>

record uniforms =
  iResolution :: vec2
  cameraPos :: vec3
  viewMatrix :: mat4
  invViewMatrix :: mat4

text \<open>\<^verbatim>\<open>(m * v).xyz\<close> for a column-major matrix.\<close>

definition mat4_mul_xyz :: "mat4 \<Rightarrow> vec4 \<Rightarrow> vec3" where
  "mat4_mul_xyz m v =
     vec3 (wx (col0 m) * wx v + wx (col1 m) * wy v + wx (col2 m) * wz v + wx (col3 m) * ww v)
          (wy (col0 m) * wx v + wy (col1 m) * wy v + wy (col2 m) * wz v + wy (col3 m) * ww v)
          (wz (col0 m) * wx v + wz (col1 m) * wy v + wz (col2 m) * wz v + wz (col3 m) * ww v)"

text \<open>\<^verbatim>\<open>mat4(1.0)\<close>, the view of a camera that looks down the negative \<open>z\<close> axis.\<close>

definition mat4_identity :: mat4 where
  "mat4_identity = mat4 (vec4 1 0 0 0) (vec4 0 1 0 0) (vec4 0 0 1 0) (vec4 0 0 0 1)"

text \<open>The ray setup of \<^verbatim>\<open>main\<close>: from the uniforms and \<^verbatim>\<open>gl_FragCoord.xy\<close> to
  \<^verbatim>\<open>rayDirWorld\<close>.\<close>

definition raySetup :: "uniforms \<Rightarrow> vec2 \<Rightarrow> vec3" where
  "raySetup u fragCoord =
     (let uv0 = vec2 (x2 fragCoord / x2 (iResolution u) * 2.0 - 1.0)
                     (y2 fragCoord / y2 (iResolution u) * 2.0 - 1.0);
          uv = vec2 (x2 uv0 * (x2 (iResolution u) / y2 (iResolution u))) (y2 uv0);
          rayDirCam = normalize_vec (vec3 (x2 uv) (y2 uv) (- 1.0))
      in normalize_vec (mat4_mul_xyz (invViewMatrix u)
           (vec4 (vx rayDirCam) (vy rayDirCam) (vz rayDirCam) 0.0)))"

text \<open>The shading logic of \<^verbatim>\<open>main\<close>: from what the loop left (\<open>m\<close>) and the impact
  parameter \<^verbatim>\<open>b_global\<close> to \<^verbatim>\<open>FragColor\<close>.\<close>

definition shading :: "uniforms \<Rightarrow> march_result \<Rightarrow> real \<Rightarrow> vec4" where
  "shading u m b_global =
     (let rayDirWorld = D_final m
      in if hit m then vec4 0.0 0.0 0.0 1.0
         else
           (let bg = sampleLensedSky (cameraPos u) rayDirWorld b_global;
                ringProximity = exp (- pow ((b_global - b_crit) / (0.03 * b_crit)) 2.0);
                ringColor = computeLensedColor b_global;
                final = vmix bg ringColor (smoothstep 0.0 0.85 ringProximity)
            in vec4 (vx final) (vy final) (vz final) 1.0))"

text \<open>\<^verbatim>\<open>main\<close>, from the uniforms and \<^verbatim>\<open>gl_FragCoord.xy\<close> to \<^verbatim>\<open>FragColor\<close>. The local
  \<^verbatim>\<open>likelyCaptured\<close> is computed by the shader and never read.\<close>

definition main_frag :: "uniforms \<Rightarrow> vec2 \<Rightarrow> vec4" where
  "main_frag u fragCoord =
     (let rayDirWorld = raySetup u fragCoord;
          ro = cameraPos u;
          b_global = calcb ro rayDirWorld;
          m = marchLoop ro 0 0.0 rayDirWorld
      in shading u m b_global)"

subsection \<open>The sky sampler as the specification words it\<close>

text \<open>The deflection model of the specification (its section 4.3): the weak-field term
  \<open>2 r_s / max(b, 1e-6)\<close>, times the near-critical factor, saturated by the arctangent and
  clamped to \<open>[0, 6]\<close>.\<close>

definition spec_DeflectionModel :: "real \<Rightarrow> real" where
  "spec_DeflectionModel b =
     (let weak = 2 * r_s / max b (1 / 10 ^ 6);
          scale = 0.08 * b_crit;
          nearFactor = 1 + 3 * exp (- ((b - b_crit)\<^sup>2) / scale\<^sup>2);
          raw = weak * nearFactor
      in clamp (arctan raw * 2) 0 6)"

text \<open>The lensed sky of the specification (its section 4.6) for a deflection model \<open>theta\<close>:
  the axis is the normalized cross product of direction and origin; order \<open>n = 0..5\<close> has
  the angle \<open>theta(b) + n 2\<pi>\<close> (with the shader's constant for \<open>2\<pi>\<close>) and the weight
  \<open>exp(- 4 n) exp(- |b - b_crit| / (0.1 b_crit))\<close>; the result is the weighted sum of the sky
  colours of the rotated directions, divided by the sum of the weights.\<close>

definition spec_lensedAverage :: "(real \<Rightarrow> real) \<Rightarrow> vec3 \<Rightarrow> vec3 \<Rightarrow> real \<Rightarrow> vec3" where
  "spec_lensedAverage theta ro D b =
     (let Dn = normalize_vec D;
          axis = normalize_vec (cross Dn ro);
          alpha = (\<lambda>n. theta b + real n * TWO_PI);
          weight = (\<lambda>n. exp (- 4 * real n) * exp (- \<bar>b - b_crit\<bar> / (0.1 * b_crit)))
      in vdiv (foldl vadd (vec3 0 0 0)
                 (map (\<lambda>n. vscale (skyColor (rotateRodrigues Dn axis (alpha n))) (weight n))
                    [0..<6]))
              (sum_list (map weight [0..<6])))"

declare marchLoop.simps [simp del] lensLoop.simps [simp del]

section \<open>Properties\<close>

subsection \<open>Vector algebra\<close>

lemma vlength_nonneg: "0 \<le> vlength a"
  by (simp add: vlength_def dot_def)

lemma lagrange_identity:
  "dot (cross a b) (cross a b) = dot a a * dot b b - (dot a b)\<^sup>2"
  by (simp add: dot_def cross_def power2_eq_square algebra_simps)

text \<open>
  Claim C7. The impact parameter \<open>calcb O D = |O \<times> D|\<close> is never negative; it is \<open>0\<close> when
  \<open>D\<close> is a multiple of \<open>O\<close> (parallel or anti-parallel), and it is \<open>|O|\<close> when \<open>D\<close> is a
  unit vector perpendicular to \<open>O\<close>.
\<close>

theorem calcb_properties:
  "0 \<le> calcb O' D
   \<and> (D = vscale O' k \<or> O' = vscale D k \<longrightarrow> calcb O' D = 0)
   \<and> (vlength D = 1 \<and> dot O' D = 0 \<longrightarrow> calcb O' D = vlength O')"
proof (intro conjI impI)
  show "0 \<le> calcb O' D"
    by (simp add: calcb_def vlength_nonneg)
next
  assume "D = vscale O' k \<or> O' = vscale D k"
  then have "cross O' D = vec3 0 0 0"
    by (auto simp add: cross_def vscale_def)
  then show "calcb O' D = 0"
    by (simp add: calcb_def vlength_def dot_def)
next
  assume h: "vlength D = 1 \<and> dot O' D = 0"
  then have "sqrt (dot D D) = 1"
    by (simp add: vlength_def)
  then have "dot D D = 1"
    by simp
  with h have "dot (cross O' D) (cross O' D) = dot O' O'"
    by (simp add: lagrange_identity)
  then show "calcb O' D = vlength O'"
    by (simp add: calcb_def vlength_def)
qed

theorem calcb_properties_witness:
  "calcb (vec3 0 0 5) (vec3 0 0 (-1)) = 0
   \<and> calcb (vec3 0 0 (-1)) (vec3 0 0 5) = 0
   \<and> vlength (vec3 1 0 0) = 1 \<and> dot (vec3 0 0 5) (vec3 1 0 0) = 0
   \<and> calcb (vec3 0 0 5) (vec3 1 0 0) = vlength (vec3 0 0 5)"
  using calcb_properties [of "vec3 0 0 5" "vec3 0 0 (-1)" "- (1 / 5)"]
    calcb_properties [of "vec3 0 0 (-1)" "vec3 0 0 5" "- (1 / 5)"]
    calcb_properties [of "vec3 0 0 5" "vec3 1 0 0"]
  by (simp add: vscale_def vlength_def dot_def)


lemma dot_vadd_right: "dot a (vadd x y) = dot a x + dot a y"
  by (simp add: dot_def vadd_def algebra_simps)

lemma dot_vscale_right: "dot a (vscale x s) = s * dot a x"
  by (simp add: dot_def vscale_def algebra_simps)

lemma dot_cross_self: "dot a (cross a v) = 0"
  by (simp add: dot_def cross_def algebra_simps)

lemma cross_vadd_right: "cross a (vadd x y) = vadd (cross a x) (cross a y)"
  by (simp add: cross_def vadd_def algebra_simps)

lemma cross_vscale_right: "cross a (vscale x s) = vscale (cross a x) s"
  by (simp add: cross_def vscale_def algebra_simps)

lemma cross_self: "cross a a = vec3 0 0 0"
  by (simp add: cross_def)

lemma cross_cross_self:
  "cross a (cross a v) = vsub (vscale a (dot a v)) (vscale v (dot a a))"
  by (simp add: cross_def vsub_def vscale_def dot_def algebra_simps)

lemma vlength_one_dot: "vlength a = 1 \<Longrightarrow> dot a a = 1"
  by (simp add: vlength_def)

subsection \<open>Rodrigues rotation\<close>

lemma dot_axis_rotate:
  assumes "dot a a = 1"
  shows "dot a (rotateRodrigues v a t) = dot a v"
  using assms
  by (simp add: rotateRodrigues_def dot_vadd_right dot_vscale_right dot_cross_self
      algebra_simps)

lemma cross_axis_rotate:
  assumes "dot a a = 1"
  shows "cross a (rotateRodrigues v a t) =
         vadd (vscale (cross a v) (cos t)) (vscale (vsub (vscale a (dot a v)) v) (sin t))"
proof -
  have "vscale v 1 = v"
    by (cases v) (simp add: vscale_def)
  with assms show ?thesis
    by (simp add: rotateRodrigues_def cross_vadd_right cross_vscale_right cross_self
        cross_cross_self)
      (simp add: vadd_def vscale_def)
qed

lemma rotate_back:
  assumes "dot a a = 1"
  shows "rotateRodrigues (rotateRodrigues v a t) a (- t) = v"
proof -
  have cs: "sin t * sin t = 1 - cos t * cos t"
    using sin_cos_squared_add [of t] by (simp add: power2_eq_square)
  have "rotateRodrigues (rotateRodrigues v a t) a (- t) =
        vadd (vadd (vscale (rotateRodrigues v a t) (cos t))
                   (vscale (vadd (vscale (cross a v) (cos t))
                        (vscale (vsub (vscale a (dot a v)) v) (sin t))) (- sin t)))
             (vscale (vscale a (dot a v)) (1 - cos t))"
    by (simp add: rotateRodrigues_def [of "rotateRodrigues v a t"]
        dot_axis_rotate [OF assms] cross_axis_rotate [OF assms])
  also have "\<dots> = v"
    by (cases v; cases a)
      (simp add: rotateRodrigues_def vadd_def vscale_def vsub_def cross_def dot_def
        algebra_simps cs)
  finally show ?thesis .
qed

lemma rotate_dot:
  assumes "dot a a = 1"
  shows "dot (rotateRodrigues v a t) (rotateRodrigues v a t) = dot v v"
proof -
  obtain a1 a2 a3 where a: "a = vec3 a1 a2 a3"
    by (cases a)
  obtain v1 v2 v3 where v: "v = vec3 v1 v2 v3"
    by (cases v)
  define c where "c = cos t"
  define s where "s = sin t"
  have cs: "c\<^sup>2 + s\<^sup>2 = 1"
    by (simp add: c_def s_def)
  have aa: "a1\<^sup>2 + a2\<^sup>2 + a3\<^sup>2 = 1"
    using assms by (simp add: a dot_def power2_eq_square)
  show ?thesis
    unfolding a v rotateRodrigues_def dot_def cross_def vadd_def vscale_def
    apply (simp add: c_def [symmetric] s_def [symmetric])
    using cs aa apply algebra
    done
qed

text \<open>
  Claim C6. For a unit axis \<open>a\<close> and any angle \<open>\<theta>\<close>, the rotation
  \<open>v cos \<theta> + (a \<times> v) sin \<theta> + a (a \<cdot> v) (1 - cos \<theta>)\<close> that \<open>rotateRodrigues\<close> computes keeps
  the length of \<open>v\<close>, and rotating by \<open>\<theta>\<close> and then by \<open>- \<theta>\<close> about the same axis gives
  \<open>v\<close> back (over the reals). This holds for every \<open>v\<close>, the unit vectors among them.
\<close>

theorem rotateRodrigues_isometry_inverse:
  assumes "vlength a = 1"
  shows "rotateRodrigues v a \<theta> =
           vadd (vadd (vscale v (cos \<theta>)) (vscale (cross a v) (sin \<theta>)))
                (vscale (vscale a (dot a v)) (1 - cos \<theta>))
         \<and> vlength (rotateRodrigues v a \<theta>) = vlength v
         \<and> rotateRodrigues (rotateRodrigues v a \<theta>) a (- \<theta>) = v"
  using vlength_one_dot [OF assms]
  by (simp add: rotate_back vlength_def rotate_dot) (simp add: rotateRodrigues_def)

theorem rotateRodrigues_isometry_inverse_witness:
  "vlength (vec3 0 0 1) = 1
   \<and> rotateRodrigues (vec3 1 0 0) (vec3 0 0 1) (pi / 2) = vec3 0 1 0
   \<and> vlength (rotateRodrigues (vec3 1 0 0) (vec3 0 0 1) (pi / 2)) = vlength (vec3 1 0 0)
   \<and> rotateRodrigues (rotateRodrigues (vec3 1 0 0) (vec3 0 0 1) (pi / 2)) (vec3 0 0 1)
        (- (pi / 2)) = vec3 1 0 0"
proof -
  have h: "vlength (vec3 0 0 1) = 1"
    by (simp add: vlength_def dot_def)
  have r: "rotateRodrigues (vec3 1 0 0) (vec3 0 0 1) (pi / 2) = vec3 0 1 0"
    by (simp add: rotateRodrigues_def vadd_def vscale_def cross_def dot_def)
  from rotateRodrigues_isometry_inverse [OF h, of "vec3 1 0 0" "pi / 2"]
  have "vlength (rotateRodrigues (vec3 1 0 0) (vec3 0 0 1) (pi / 2)) = vlength (vec3 1 0 0)
    \<and> rotateRodrigues (rotateRodrigues (vec3 1 0 0) (vec3 0 0 1) (pi / 2)) (vec3 0 0 1)
        (- (pi / 2)) = vec3 1 0 0"
    by blast
  with h r show ?thesis
    by blast
qed

subsection \<open>Deflection model\<close>

text \<open>
  Claim C4. The deflection angle used while marching, \<open>deflectionAngleStable b r_s b_crit\<close>,
  is \<open>clamp(atan(2 r_s / max(b, 1e-6) (1 + 3 exp(- (b - b_crit)\<^sup>2 / (0.08 b_crit)\<^sup>2))) 2, 0, 6)\<close>;
  it is never negative and never above 6. This holds for every \<open>b\<close>, so for every \<open>b \<ge> 0\<close>.
\<close>

theorem deflectionAngleStable_formula_bounds:
  "deflectionAngleStable b r_s b_crit =
     clamp (arctan (2 * r_s / max b (1 / 10 ^ 6)
              * (1 + 3 * exp (- ((b - b_crit)\<^sup>2) / (0.08 * b_crit)\<^sup>2))) * 2) 0 6
   \<and> 0 \<le> deflectionAngleStable b r_s b_crit
   \<and> deflectionAngleStable b r_s b_crit \<le> 6"
  by (simp add: deflectionAngleStable_def clamp_def power2_eq_square Let_def)

subsection \<open>The sky sampler\<close>

text \<open>
  Claim C3. For every origin and direction, \<open>sampleLensedSky\<close> returns the colour \<open>(0, 0, 0)\<close>
  whenever the impact parameter it is given is at most \<open>b_crit\<close>.
\<close>

theorem sampleLensedSky_below_critical:
  "b \<le> b_crit \<Longrightarrow> sampleLensedSky ro D b = vec3 0 0 0"
  by (simp add: sampleLensedSky_def vsplat_def)

theorem sampleLensedSky_below_critical_witness:
  "(2::real) \<le> b_crit \<and> sampleLensedSky (vec3 0 0 5) (vec3 1 0 0) 2 = vec3 0 0 0"
proof -
  have h: "(2::real) \<le> b_crit"
    by (simp add: b_crit_def r_s_def)
  show ?thesis
    using h sampleLensedSky_below_critical [OF h] by simp
qed

lemma lensLoop_step:
  "n \<le> MAX_ORDERS \<Longrightarrow>
   lensLoop Dn axis b n (acc, tw) =
   lensLoop Dn axis b (Suc n) (vadd acc (orderSample Dn axis b n), tw + orderWeight b n)"
  by (subst lensLoop.simps) (simp add: Let_def orderSample_def orderWeight_def)

lemma lensLoop_stop: "\<not> n \<le> MAX_ORDERS \<Longrightarrow> lensLoop Dn axis b n (acc, tw) = (acc, tw)"
  by (subst lensLoop.simps) simp

lemma lensLoop_closed:
  "lensLoop Dn axis b n (acc, tw) =
     (foldl vadd acc (map (orderSample Dn axis b) [n..<Suc MAX_ORDERS]),
      tw + sum_list (map (orderWeight b) [n..<Suc MAX_ORDERS]))"
proof (induction k \<equiv> "Suc MAX_ORDERS - n" arbitrary: n acc tw)
  case 0
  then have "\<not> n \<le> MAX_ORDERS"
    by simp
  then show ?case
    by (simp add: lensLoop_stop)
next
  case (Suc k)
  then have le: "n \<le> MAX_ORDERS" and k: "k = Suc MAX_ORDERS - Suc n"
    by simp_all
  have u: "[n..<Suc MAX_ORDERS] = n # [Suc n..<Suc MAX_ORDERS]"
    using le by (simp add: upt_conv_Cons del: upt_Suc)
  show ?case
    unfolding lensLoop_step [OF le] Suc.hyps(1) [OF k] u
    by simp
qed

lemma orderWeight_pos: "0 < orderWeight b n"
  by (simp add: orderWeight_def)

lemma sum_list_orderWeight_pos: "xs \<noteq> [] \<Longrightarrow> 0 < sum_list (map (orderWeight b) xs)"
proof (induction xs)
  case Nil
  then show ?case by simp
next
  case (Cons a xs)
  have "0 \<le> sum_list (map (orderWeight b) xs)"
    by (rule sum_list_nonneg) (auto intro: less_imp_le orderWeight_pos)
  with orderWeight_pos [of b a] show ?case
    by simp
qed

lemma totalWeight_pos: "0 < snd (lensLoop Dn axis b 0 (acc, 0))"
  by (simp add: lensLoop_closed sum_list_orderWeight_pos del: upt_Suc)

lemma sqrt36: "sqrt 36 = 6"
  using real_sqrt_abs [of 6] by simp

text \<open>
  Claim C10. Over the reals, when \<open>sampleLensedSky\<close> reaches its loop (\<open>b > b_crit\<close> and the
  axis at least \<open>1e-6\<close> long), every weight \<open>exp(- 4 n) exp(- |b - b_crit| / (0.1 b_crit))\<close>
  of an order \<open>n \<le> MAX_ORDERS\<close> is positive, \<^verbatim>\<open>totalWeight\<close> after the loop is their sum and
  is positive, and the result is \<^verbatim>\<open>accum / totalWeight\<close>: the \<^verbatim>\<open>skyColor(Dn)\<close> branch of
  the last conditional is not taken.
\<close>

theorem sampleLensedSky_weights_positive:
  assumes "b_crit < b" and "1 / 10 ^ 6 \<le> vlength (cross (normalize_vec D) ro)"
  shows "(\<forall>n \<le> MAX_ORDERS. 0 < orderWeight b n)
    \<and> (let Dn = normalize_vec D; axisRaw = cross Dn ro;
            axis = vdiv axisRaw (vlength axisRaw);
            r = lensLoop Dn axis b 0 (vsplat 0, 0)
        in snd r = (\<Sum>n \<leftarrow> [0..<Suc MAX_ORDERS]. orderWeight b n)
           \<and> 0 < snd r
           \<and> sampleLensedSky ro D b = vdiv (fst r) (snd r))"
proof -
  let ?Dn = "normalize_vec D"
  let ?axis = "vdiv (cross ?Dn ro) (vlength (cross ?Dn ro))"
  let ?r = "lensLoop ?Dn ?axis b 0 (vsplat 0, 0)"
  have 1: "\<forall>n \<le> MAX_ORDERS. 0 < orderWeight b n"
    by (simp add: orderWeight_pos)
  have 2: "snd ?r = (\<Sum>n \<leftarrow> [0..<Suc MAX_ORDERS]. orderWeight b n)"
    by (simp add: lensLoop_closed del: upt_Suc)
  have 3: "0 < snd ?r"
    by (rule totalWeight_pos)
  obtain acc tw where r: "?r = (acc, tw)"
    by (cases ?r)
  have 4: "sampleLensedSky ro D b = vdiv (fst ?r) (snd ?r)"
    using assms 3 by (simp add: sampleLensedSky_def Let_def r)
  show ?thesis
    unfolding Let_def using 1 2 3 4 by blast
qed

theorem sampleLensedSky_weights_positive_witness:
  "b_crit < 6 \<and> 1 / 10 ^ 6 \<le> vlength (cross (normalize_vec (vec3 0 1 0)) (vec3 0 0 6))
   \<and> 0 < orderWeight 6 5
   \<and> 0 < snd (lensLoop (vec3 0 1 0) (vec3 1 0 0) 6 0 (vsplat 0, 0))
   \<and> sampleLensedSky (vec3 0 0 6) (vec3 0 1 0) 6 =
       vdiv (fst (lensLoop (vec3 0 1 0) (vec3 1 0 0) 6 0 (vsplat 0, 0)))
            (snd (lensLoop (vec3 0 1 0) (vec3 1 0 0) 6 0 (vsplat 0, 0)))"
proof -
  have n: "normalize_vec (vec3 0 1 0) = vec3 0 1 0"
    by (simp add: normalize_vec_def vlength_def dot_def vdiv_def)
  have c: "cross (vec3 0 1 0) (vec3 0 0 6) = vec3 6 0 0"
    by (simp add: cross_def)
  have l: "vlength (vec3 6 0 0) = 6"
    by (simp add: vlength_def dot_def sqrt36)
  have a: "vdiv (vec3 6 0 0) 6 = vec3 1 0 0"
    by (simp add: vdiv_def)
  have h1: "b_crit < 6"
    by (simp add: b_crit_def r_s_def)
  have h2: "1 / 10 ^ 6 \<le> vlength (cross (normalize_vec (vec3 0 1 0)) (vec3 0 0 6))"
    by (simp add: n c l)
  show ?thesis
    using sampleLensedSky_weights_positive [OF h1 h2] h1 h2
    by (simp add: Let_def n c l a MAX_ORDERS_def del: upt_Suc)
qed


subsection \<open>The marching loop\<close>

lemma marchLoop_iterations: "iterations (marchLoop O' i t D) \<le> max i MAX_STEPS"
proof (induction O' i t D rule: marchLoop.induct)
  case (1 O' i t D)
  show ?case
  proof (cases "i < MAX_STEPS")
    case False
    then show ?thesis by (subst marchLoop.simps) simp
  next
    case True
    note lt = this
    let ?p = "vadd O' (vscale D t)"
    let ?d = "sceneSDF ?p"
    show ?thesis
    proof (cases "?d < 0.001 \<or> t > MAX_DIST")
      case True
      with lt show ?thesis by (subst marchLoop.simps) (auto simp: Let_def)
    next
      case False
      with lt 1 [OF lt refl refl _ _ refl refl refl] show ?thesis
        by (subst marchLoop.simps) (auto simp: Let_def)
    qed
  qed
qed

text \<open>
  Claim C5. From every origin and direction the marching loop ends after entering its body
  at most 500 times. An iteration \<open>i < 500\<close> at distance \<open>t\<close> and direction \<open>D\<close>, with
  \<open>p = O + D t\<close> and \<open>d = sceneSDF p\<close>, stops with \<^verbatim>\<open>hit = true\<close> (captured) when
  \<open>d < 0.001\<close>, stops without a hit (escaped) when otherwise \<open>t > 100\<close>, and otherwise goes
  on to iteration \<open>i + 1\<close> with \<open>t\<close> advanced by \<open>max d 0.001\<close>; at \<open>i = 500\<close> the loop is over,
  without a hit.
\<close>

theorem marchLoop_bounded:
  "iterations (marchLoop O' 0 0 D0) \<le> 500
   \<and> (i < 500 \<longrightarrow>
       (let p = vadd O' (vscale D t); d = sceneSDF p
        in (d < 0.001 \<longrightarrow>
              marchLoop O' i t D = \<lparr>hit = True, t_final = t, D_final = D, iterations = i + 1\<rparr>)
         \<and> (\<not> d < 0.001 \<and> t > 100 \<longrightarrow>
              marchLoop O' i t D = \<lparr>hit = False, t_final = t, D_final = D, iterations = i + 1\<rparr>)
         \<and> (\<not> d < 0.001 \<and> \<not> t > 100 \<longrightarrow>
              marchLoop O' i t D =
                marchLoop O' (i + 1) (t + max d 0.001)
                  (if even i then bendDirection p D else D))))
   \<and> (\<not> i < 500 \<longrightarrow>
        marchLoop O' i t D = \<lparr>hit = False, t_final = t, D_final = D, iterations = i\<rparr>)"
proof (intro conjI impI)
  show "iterations (marchLoop O' 0 0 D0) \<le> 500"
    using marchLoop_iterations [of O' 0 0 D0] by (simp add: MAX_STEPS_def)
next
  assume "i < 500"
  then show "let p = vadd O' (vscale D t); d = sceneSDF p
        in (d < 0.001 \<longrightarrow>
              marchLoop O' i t D = \<lparr>hit = True, t_final = t, D_final = D, iterations = i + 1\<rparr>)
         \<and> (\<not> d < 0.001 \<and> t > 100 \<longrightarrow>
              marchLoop O' i t D = \<lparr>hit = False, t_final = t, D_final = D, iterations = i + 1\<rparr>)
         \<and> (\<not> d < 0.001 \<and> \<not> t > 100 \<longrightarrow>
              marchLoop O' i t D =
                marchLoop O' (i + 1) (t + max d 0.001)
                  (if even i then bendDirection p D else D))"
    by (subst (1 2 3) marchLoop.simps)
      (simp add: Let_def MAX_STEPS_def MAX_DIST_def MIN_STEP_def BEND_UPDATE_INTERVAL_def
        even_iff_mod_2_eq_zero)
next
  assume "\<not> i < 500"
  then show "marchLoop O' i t D = \<lparr>hit = False, t_final = t, D_final = D, iterations = i\<rparr>"
    by (subst marchLoop.simps) (simp add: MAX_STEPS_def)
qed


lemma sceneSDF_z: "0 \<le> z \<Longrightarrow> sceneSDF (vec3 0 0 z) = z - 1"
  by (simp add: sceneSDF_def sphereSDF_def vsplat_def vsub_def vlength_def dot_def r_s_def)

lemma bendDirection_on_axis: "bendDirection (vec3 0 0 z) (vec3 0 0 w) = vec3 0 0 w"
  by (simp add: bendDirection_def Let_def cross_def vlength_def dot_def)

lemma march_head_on:
  "marchLoop (vec3 0 0 5) 0 0 (vec3 0 0 (- 1)) =
     \<lparr>hit = True, t_final = 4, D_final = vec3 0 0 (- 1), iterations = 2\<rparr>"
proof -
  have "marchLoop (vec3 0 0 5) 0 0 (vec3 0 0 (- 1)) = marchLoop (vec3 0 0 5) 1 4 (vec3 0 0 (- 1))"
    by (subst marchLoop.simps)
      (simp add: Let_def MAX_STEPS_def MAX_DIST_def MIN_STEP_def BEND_UPDATE_INTERVAL_def
        vadd_def vscale_def sceneSDF_z bendDirection_on_axis)
  also have "\<dots> = \<lparr>hit = True, t_final = 4, D_final = vec3 0 0 (- 1), iterations = 2\<rparr>"
    by (subst marchLoop.simps)
      (simp add: Let_def MAX_STEPS_def vadd_def vscale_def sceneSDF_z)
  finally show ?thesis .
qed

theorem marchLoop_bounded_witness:
  "iterations (marchLoop (vec3 0 0 5) 0 0 (vec3 0 0 (- 1))) \<le> 500
   \<and> marchLoop (vec3 0 0 5) 0 0 (vec3 0 0 (- 1)) = marchLoop (vec3 0 0 5) 1 4 (vec3 0 0 (- 1))
   \<and> marchLoop (vec3 0 0 5) 1 4 (vec3 0 0 (- 1)) =
       \<lparr>hit = True, t_final = 4, D_final = vec3 0 0 (- 1), iterations = 2\<rparr>
   \<and> marchLoop (vec3 0 0 5) 0 101 (vec3 0 0 1) =
       \<lparr>hit = False, t_final = 101, D_final = vec3 0 0 1, iterations = 1\<rparr>
   \<and> marchLoop (vec3 0 0 5) 500 7 (vec3 0 0 1) =
       \<lparr>hit = False, t_final = 7, D_final = vec3 0 0 1, iterations = 500\<rparr>"
  using marchLoop_bounded [of "vec3 0 0 5" "vec3 0 0 (- 1)" 0 "vec3 0 0 (- 1)" 0]
    marchLoop_bounded [of "vec3 0 0 5" "vec3 0 0 (- 1)" 1 "vec3 0 0 (- 1)" 4]
    marchLoop_bounded [of "vec3 0 0 5" "vec3 0 0 (- 1)" 0 "vec3 0 0 1" 101]
    marchLoop_bounded [of "vec3 0 0 5" "vec3 0 0 (- 1)" 500 "vec3 0 0 1" 7]
  by (simp add: Let_def vadd_def vscale_def sceneSDF_z bendDirection_on_axis)

subsection \<open>The fragment colour\<close>

lemma marchLoop_hit_captured:
  "hit (marchLoop O' i t D) \<Longrightarrow>
   sceneSDF (vadd O' (vscale (D_final (marchLoop O' i t D)) (t_final (marchLoop O' i t D))))
     < 0.001"
proof (induction O' i t D rule: marchLoop.induct)
  case (1 O' i t D)
  show ?case
  proof (cases "i < MAX_STEPS")
    case False
    with "1.prems" show ?thesis
      by (subst (asm) marchLoop.simps) simp
  next
    case True
    note lt = this
    let ?p = "vadd O' (vscale D t)"
    let ?d = "sceneSDF ?p"
    show ?thesis
    proof (cases "?d < 0.001")
      case True
      with lt show ?thesis
        by (subst (1 2) marchLoop.simps) (simp add: Let_def)
    next
      case False
      note nd = this
      show ?thesis
      proof (cases "t > MAX_DIST")
        case True
        with lt nd "1.prems" show ?thesis
          by (subst (asm) marchLoop.simps) (simp add: Let_def)
      next
        case False
        let ?D' = "if i mod nat \<lfloor>max 1.0 BEND_UPDATE_INTERVAL\<rfloor> = 0 then bendDirection ?p D else D"
        have eq: "marchLoop O' i t D = marchLoop O' (i + 1) (t + max ?d MIN_STEP) ?D'"
          using lt nd False by (subst marchLoop.simps) (simp add: Let_def)
        have "hit (marchLoop O' (i + 1) (t + max ?d MIN_STEP) ?D')"
          using "1.prems" by (simp only: eq)
        from "1.IH" [OF lt refl refl nd False refl refl refl this]
        show ?thesis
          by (simp only: eq)
      qed
    qed
  qed
qed

text \<open>
  Claim C1. When the march ends with a hit, the shading writes the colour \<open>(0, 0, 0, 1)\<close>,
  whatever the impact parameter \<open>b\<close> is (at most \<open>b_crit\<close> or above it). So does \<^verbatim>\<open>main\<close>
  for every pixel whose march ends with a hit, and then the last point of the march is
  within \<open>0.001\<close> of the horizon sphere or inside it.
\<close>

theorem main_hit_black:
  "(hit m \<longrightarrow> shading u m b = vec4 0 0 0 1)
   \<and> (hit (marchLoop (cameraPos u) 0 0 (raySetup u fragCoord))
        \<longrightarrow> main_frag u fragCoord = vec4 0 0 0 1
          \<and> (let m' = marchLoop (cameraPos u) 0 0 (raySetup u fragCoord)
             in sceneSDF (vadd (cameraPos u) (vscale (D_final m') (t_final m'))) < 0.001))"
  using marchLoop_hit_captured [of "cameraPos u" 0 0 "raySetup u fragCoord"]
  by (simp add: main_frag_def shading_def Let_def)

theorem main_hit_black_witness:
  "hit (marchLoop (vec3 0 0 5) 0 0 (vec3 0 0 (- 1)))
   \<and> shading \<lparr>iResolution = vec2 100 100, cameraPos = vec3 0 0 5,
        viewMatrix = mat4_identity, invViewMatrix = mat4_identity\<rparr>
        (marchLoop (vec3 0 0 5) 0 0 (vec3 0 0 (- 1))) 7 = vec4 0 0 0 1
   \<and> raySetup \<lparr>iResolution = vec2 100 100, cameraPos = vec3 0 0 5,
        viewMatrix = mat4_identity, invViewMatrix = mat4_identity\<rparr> (vec2 50 50) = vec3 0 0 (- 1)
   \<and> main_frag \<lparr>iResolution = vec2 100 100, cameraPos = vec3 0 0 5,
        viewMatrix = mat4_identity, invViewMatrix = mat4_identity\<rparr> (vec2 50 50) = vec4 0 0 0 1"
proof -
  let ?u = "\<lparr>iResolution = vec2 100 100, cameraPos = vec3 0 0 5,
        viewMatrix = mat4_identity, invViewMatrix = mat4_identity\<rparr>"
  have rs: "raySetup ?u (vec2 50 50) = vec3 0 0 (- 1)"
    by (simp add: raySetup_def Let_def normalize_vec_def vlength_def dot_def vdiv_def
        mat4_mul_xyz_def mat4_identity_def)
  have h: "hit (marchLoop (vec3 0 0 5) 0 0 (vec3 0 0 (- 1)))"
    by (simp add: march_head_on)
  show ?thesis
    using main_hit_black [of "marchLoop (vec3 0 0 5) 0 0 (vec3 0 0 (- 1))" ?u 7 "vec2 50 50"]
      h rs
    by simp
qed

text \<open>
  Claim C9. On every path (hit or no hit) the alpha component of the fragment colour is 1.
\<close>

theorem main_alpha_one: "ww (shading u m b) = 1 \<and> ww (main_frag u fragCoord) = 1"
  by (simp add: main_frag_def shading_def Let_def)

subsection \<open>The guard on the rotation axis\<close>

lemma skyColor_xz: "vx (skyColor d) - vz (skyColor d) = - 0.04 - 0.155 * (vy d + 1)"
  by (simp add: skyColor_def Let_def vadd_def vsplat_def vmix_def mix_def)
    (simp add: field_simps)

lemma normalize_vec_unit: "vlength D = 1 \<Longrightarrow> normalize_vec D = D"
  by (cases D) (simp add: normalize_vec_def vdiv_def)

text \<open>
  Claim C8, as the code has it. When the cross product that gives the rotation axis is
  shorter than \<open>1e-6\<close>: the bending update of the marching loop leaves the direction \<open>D\<close> as
  it is for that step; and \<open>sampleLensedSky\<close>, when it is called with \<open>b > b_crit\<close>, returns
  \<open>skyColor\<close> of the normalized direction (of the direction itself when it is a unit vector)
  without entering its loop. The test \<open>b \<le> b_crit\<close> comes first in \<open>sampleLensedSky\<close>: for
  such a \<open>b\<close> the result is black, also when the axis is degenerate, as the theorem after the
  next shows for the ray from \<open>(0, 0, 5)\<close> straight at the centre.
\<close>

theorem axis_guard:
  "(i < MAX_STEPS \<and> \<not> sceneSDF (vadd O' (vscale D t)) < 0.001 \<and> \<not> t > MAX_DIST
      \<and> vlength (cross D (vadd O' (vscale D t))) < 1 / 10 ^ 6
     \<longrightarrow> marchLoop O' i t D =
          marchLoop O' (i + 1) (t + max (sceneSDF (vadd O' (vscale D t))) MIN_STEP) D)
   \<and> (vlength (cross D p) < 1 / 10 ^ 6 \<longrightarrow> bendDirection p D = D)
   \<and> (b_crit < b \<and> vlength (cross (normalize_vec D) ro) < 1 / 10 ^ 6
     \<longrightarrow> sampleLensedSky ro D b = skyColor (normalize_vec D)
         \<and> (vlength D = 1 \<longrightarrow> sampleLensedSky ro D b = skyColor D))"
proof (intro conjI impI)
  show b: "bendDirection p D = D" if "vlength (cross D p) < 1 / 10 ^ 6" for p
    using that by (simp add: bendDirection_def Let_def)
  assume "i < MAX_STEPS \<and> \<not> sceneSDF (vadd O' (vscale D t)) < 0.001 \<and> \<not> t > MAX_DIST
      \<and> vlength (cross D (vadd O' (vscale D t))) < 1 / 10 ^ 6"
  then show "marchLoop O' i t D =
          marchLoop O' (i + 1) (t + max (sceneSDF (vadd O' (vscale D t))) MIN_STEP) D"
    by (subst marchLoop.simps) (simp add: Let_def b)
next
  assume h: "b_crit < b \<and> vlength (cross (normalize_vec D) ro) < 1 / 10 ^ 6"
  then show s: "sampleLensedSky ro D b = skyColor (normalize_vec D)"
    by (simp add: sampleLensedSky_def Let_def)
  assume "vlength D = 1"
  with s show "sampleLensedSky ro D b = skyColor D"
    by (simp add: normalize_vec_unit)
qed

theorem axis_guard_witness:
  "marchLoop (vec3 0 0 5) 0 0 (vec3 0 0 (- 1)) = marchLoop (vec3 0 0 5) 1 4 (vec3 0 0 (- 1))
   \<and> bendDirection (vec3 0 0 5) (vec3 0 0 (- 1)) = vec3 0 0 (- 1)
   \<and> b_crit < 3 \<and> vlength (vec3 0 0 (- 1)) = 1
   \<and> vlength (cross (normalize_vec (vec3 0 0 (- 1))) (vec3 0 0 5)) < 1 / 10 ^ 6
   \<and> sampleLensedSky (vec3 0 0 5) (vec3 0 0 (- 1)) 3 = skyColor (vec3 0 0 (- 1))"
proof -
  have n: "vlength (vec3 0 0 (- 1)) = 1"
    by (simp add: vlength_def dot_def)
  have c: "vlength (cross (normalize_vec (vec3 0 0 (- 1))) (vec3 0 0 5)) < 1 / 10 ^ 6"
    by (simp add: normalize_vec_unit [OF n]) (simp add: cross_def vlength_def dot_def)
  have b: "b_crit < 3"
    by (simp add: b_crit_def r_s_def)
  have nn: "normalize_vec (vec3 0 0 (- 1)) = vec3 0 0 (- 1)"
    by (rule normalize_vec_unit [OF n])
  have p: "vadd (vec3 0 0 5) (vscale (vec3 0 0 (- 1)) 0) = vec3 0 0 5"
    by (simp add: vadd_def vscale_def)
  have x: "vlength (cross (vec3 0 0 (- 1)) (vec3 0 0 5)) = 0"
    by (simp add: cross_def vlength_def dot_def)
  show ?thesis
    using axis_guard [of 0 "vec3 0 0 5" "vec3 0 0 (- 1)" 0 "vec3 0 0 5" 3 "vec3 0 0 5"] n b
    by (simp add: p x nn sceneSDF_z MAX_STEPS_def MAX_DIST_def MIN_STEP_def)
qed

theorem axis_guard_counterexample:
  "vlength (vec3 0 0 (- 1)) = 1
   \<and> calcb (vec3 0 0 5) (vec3 0 0 (- 1)) = 0
   \<and> vlength (cross (normalize_vec (vec3 0 0 (- 1))) (vec3 0 0 5)) < 1 / 10 ^ 6
   \<and> sampleLensedSky (vec3 0 0 5) (vec3 0 0 (- 1)) (calcb (vec3 0 0 5) (vec3 0 0 (- 1)))
       = vec3 0 0 0
   \<and> sampleLensedSky (vec3 0 0 5) (vec3 0 0 (- 1)) (calcb (vec3 0 0 5) (vec3 0 0 (- 1)))
       \<noteq> skyColor (vec3 0 0 (- 1))"
proof -
  have n: "vlength (vec3 0 0 (- 1)) = 1"
    by (simp add: vlength_def dot_def)
  have c: "vlength (cross (normalize_vec (vec3 0 0 (- 1))) (vec3 0 0 5)) < 1 / 10 ^ 6"
    by (simp add: normalize_vec_unit [OF n]) (simp add: cross_def vlength_def dot_def)
  have b: "calcb (vec3 0 0 5) (vec3 0 0 (- 1)) = 0"
    by (simp add: calcb_def cross_def vlength_def dot_def)
  have s: "sampleLensedSky (vec3 0 0 5) (vec3 0 0 (- 1)) 0 = vec3 0 0 0"
    by (simp add: sampleLensedSky_def Let_def b_crit_def r_s_def vsplat_def)
  have "vx (skyColor (vec3 0 0 (- 1))) - vz (skyColor (vec3 0 0 (- 1))) \<noteq> 0"
    by (simp add: skyColor_xz)
  then have "skyColor (vec3 0 0 (- 1)) \<noteq> vec3 0 0 0"
    by auto
  with n c b s show ?thesis
    by simp
qed

subsection \<open>The orders of the lensed sky\<close>

lemma rotateAroundAxis_eq: "rotateAroundAxis v a t = rotateRodrigues v a t"
  by (simp add: rotateAroundAxis_def rotateRodrigues_def)

lemma orderWeight_eq:
  "orderWeight b n = exp (- 4 * real n) * exp (- \<bar>b - b_crit\<bar> / (0.1 * b_crit))"
proof -
  have p: "0 < 0.1 * b_crit"
    by (simp add: b_crit_def r_s_def)
  have "\<bar>(b - b_crit) / (0.1 * b_crit)\<bar> = \<bar>b - b_crit\<bar> / \<bar>0.1 * b_crit\<bar>"
    by (rule abs_divide)
  also have "\<dots> = \<bar>b - b_crit\<bar> / (0.1 * b_crit)"
    using p by (simp only: abs_of_pos)
  finally have a: "\<bar>(b - b_crit) / (0.1 * b_crit)\<bar> = \<bar>b - b_crit\<bar> / (0.1 * b_crit)" .
  have "- real n * 4.0 = - 4 * real n"
    by simp
  then show ?thesis
    unfolding orderWeight_def a by simp
qed

lemma sampleLensedSky_closed:
  assumes "b_crit < b" and "1 / 10 ^ 6 \<le> vlength (cross (normalize_vec D) ro)"
  shows "sampleLensedSky ro D b =
     vdiv (foldl vadd (vec3 0 0 0)
             (map (orderSample (normalize_vec D) (normalize_vec (cross (normalize_vec D) ro)) b)
                [0..<Suc MAX_ORDERS]))
          (sum_list (map (orderWeight b) [0..<Suc MAX_ORDERS]))"
proof -
  let ?Dn = "normalize_vec D"
  let ?axis = "vdiv (cross ?Dn ro) (vlength (cross ?Dn ro))"
  have "0 < snd (lensLoop ?Dn ?axis b 0 (vsplat 0, 0))"
    by (rule totalWeight_pos)
  then show ?thesis
    using assms
    by (simp add: sampleLensedSky_def Let_def lensLoop_closed vsplat_def
        normalize_vec_def [of "cross ?Dn ro"] del: upt_Suc)
qed

lemma spec_lensedAverage_closed:
  "spec_lensedAverage (\<lambda>b. deflectionAngleApprox b r_s b_crit) ro D b =
     vdiv (foldl vadd (vec3 0 0 0)
             (map (orderSample (normalize_vec D) (normalize_vec (cross (normalize_vec D) ro)) b)
                [0..<Suc MAX_ORDERS]))
          (sum_list (map (orderWeight b) [0..<Suc MAX_ORDERS]))"
proof -
  have l: "Suc MAX_ORDERS = 6"
    by (simp add: MAX_ORDERS_def)
  have w: "(\<lambda>n. exp (- 4 * real n) * exp (- \<bar>b - b_crit\<bar> / (0.1 * b_crit))) = orderWeight b"
    by (rule ext) (simp only: orderWeight_eq)
  have s: "(\<lambda>n. vscale (skyColor (rotateRodrigues Dn axis
                (deflectionAngleApprox b r_s b_crit + real n * TWO_PI))) (orderWeight b n))
           = orderSample Dn axis b" for Dn axis
    by (rule ext) (simp only: orderSample_def rotateAroundAxis_eq)
  show ?thesis
    unfolding spec_lensedAverage_def Let_def w s l ..
qed


lemma vx_foldl_vadd: "vx (foldl vadd acc xs) = vx acc + sum_list (map vx xs)"
  by (induction xs arbitrary: acc) (simp_all add: vadd_def)

lemma vz_foldl_vadd: "vz (foldl vadd acc xs) = vz acc + sum_list (map vz xs)"
  by (induction xs arbitrary: acc) (simp_all add: vadd_def)

lemma vy_rotate_y_about_x: "vy (rotateRodrigues (vec3 0 1 0) (vec3 1 0 0) a) = cos a"
  by (simp add: rotateRodrigues_def vadd_def vscale_def cross_def dot_def)

lemma weighted_sky_xz:
  "vx (vscale (skyColor d) w) - vz (vscale (skyColor d) w) = w * (- 0.195 - 0.155 * vy d)"
proof -
  have "vx (vscale (skyColor d) w) - vz (vscale (skyColor d) w)
        = w * (vx (skyColor d) - vz (skyColor d))"
    by (simp add: vscale_def algebra_simps)
  also have "\<dots> = w * (- 0.195 - 0.155 * vy d)"
    by (simp only: skyColor_xz) (simp add: algebra_simps)
  finally show ?thesis .
qed

lemma average_xz:
  "vx (vdiv (foldl vadd (vec3 0 0 0) (map (\<lambda>n. vscale (skyColor (d n)) (w n)) ns)) W)
   - vz (vdiv (foldl vadd (vec3 0 0 0) (map (\<lambda>n. vscale (skyColor (d n)) (w n)) ns)) W)
   = (\<Sum>n\<leftarrow>ns. w n * (- 0.195 - 0.155 * vy (d n))) / W"
proof -
  let ?f = "\<lambda>n. vscale (skyColor (d n)) (w n)"
  have "vx (foldl vadd (vec3 0 0 0) (map ?f ns)) - vz (foldl vadd (vec3 0 0 0) (map ?f ns))
        = (\<Sum>n\<leftarrow>ns. vx (?f n) - vz (?f n))"
    by (simp add: vx_foldl_vadd vz_foldl_vadd sum_list_subtractf comp_def)
  also have "\<dots> = (\<Sum>n\<leftarrow>ns. w n * (- 0.195 - 0.155 * vy (d n)))"
    by (simp only: weighted_sky_xz)
  finally have e: "vx (foldl vadd (vec3 0 0 0) (map ?f ns))
      - vz (foldl vadd (vec3 0 0 0) (map ?f ns))
      = (\<Sum>n\<leftarrow>ns. w n * (- 0.195 - 0.155 * vy (d n)))" .
  have "vx (vdiv (foldl vadd (vec3 0 0 0) (map ?f ns)) W)
      - vz (vdiv (foldl vadd (vec3 0 0 0) (map ?f ns)) W)
      = (vx (foldl vadd (vec3 0 0 0) (map ?f ns))
         - vz (foldl vadd (vec3 0 0 0) (map ?f ns))) / W"
    by (simp add: vdiv_def diff_divide_distrib)
  then show ?thesis
    by (simp only: e)
qed

lemma frame_y_z:
  "normalize_vec (vec3 0 1 0) = vec3 0 1 0"
  "normalize_vec (cross (vec3 0 1 0) (vec3 0 0 6)) = vec3 1 0 0"
  by (simp_all add: normalize_vec_def vlength_def dot_def vdiv_def cross_def sqrt36)

lemma spec_lensedAverage_xz:
  "vx (spec_lensedAverage th (vec3 0 0 6) (vec3 0 1 0) b)
   - vz (spec_lensedAverage th (vec3 0 0 6) (vec3 0 1 0) b)
   = (\<Sum>n\<leftarrow>[0..<6]. exp (- 4 * real n) * exp (- \<bar>b - b_crit\<bar> / (0.1 * b_crit))
         * (- 0.195 - 0.155 * cos (th b + real n * TWO_PI)))
     / (\<Sum>n\<leftarrow>[0..<6]. exp (- 4 * real n) * exp (- \<bar>b - b_crit\<bar> / (0.1 * b_crit)))"
  unfolding spec_lensedAverage_def Let_def frame_y_z average_xz vy_rotate_y_about_x ..

lemma upt_0_6: "[0..<6] = [0, 1, 2, 3, 4, 5]"
  by (simp add: upt_rec)

lemma exp_minus4_le: "exp (- 4 :: real) \<le> 1 / 39"
proof -
  have "(5 / 2 :: real) \<le> exp 1"
    using exp_lower_Taylor_quadratic [of "1::real"] by simp
  then have "(5 / 2 :: real) ^ 4 \<le> exp 1 ^ 4"
    by (rule power_mono) simp
  also have "exp (1::real) ^ 4 = exp 4"
    using exp_of_nat_mult [of 4 "1::real"] by simp
  finally have "(39 :: real) \<le> exp 4"
    by (simp add: power4_eq_xxxx)
  then have "1 / exp (4::real) \<le> 1 / 39"
    by (intro divide_left_mono) simp_all
  then show ?thesis
    by (simp add: exp_minus inverse_eq_divide)
qed

lemma cos_lower: "1 - x\<^sup>2 / 2 \<le> cos (x::real)"
proof -
  have "\<bar>sin (x / 2)\<bar> \<le> \<bar>x / 2\<bar>"
    by (rule abs_sin_x_le_abs_x)
  then have "(sin (x / 2))\<^sup>2 \<le> (x / 2)\<^sup>2"
    by (simp only: abs_le_square_iff)
  moreover have "cos x = 1 - 2 * (sin (x / 2))\<^sup>2"
    using cos_double_sin [of "x / 2"] by simp
  ultimately show ?thesis
    by (simp add: power2_eq_square)
qed

lemma cos_double_arctan: "cos (2 * arctan x) = 2 / (1 + x\<^sup>2) - 1"
proof -
  have "0 < 1 + x\<^sup>2"
    by (simp add: add_pos_nonneg)
  then have "(cos (arctan x))\<^sup>2 = 1 / (1 + x\<^sup>2)"
    by (simp add: cos_arctan power_divide)
  then show ?thesis
    by (simp add: cos_double_cos)
qed

lemma approx_at_6: "deflectionAngleApprox 6 r_s b_crit = 250 / 25001"
  by (simp add: deflectionAngleApprox_def Let_def clamp_def b_crit_def r_s_def)

lemma cos_approx_at_6: "9999 / 10000 \<le> cos (deflectionAngleApprox 6 r_s b_crit)"
proof -
  have "1 - (250 / 25001 :: real)\<^sup>2 / 2 \<le> cos (250 / 25001)"
    by (rule cos_lower)
  moreover have "(9999 / 10000 :: real) \<le> 1 - (250 / 25001)\<^sup>2 / 2"
    by (simp add: power2_eq_square)
  ultimately show ?thesis
    by (simp only: approx_at_6)
qed

lemma cos_spec_at_6: "cos (spec_DeflectionModel 6) \<le> 4 / 5"
proof -
  define raw :: real where
    "raw = 2 * r_s / max 6 (1 / 10 ^ 6) * (1 + 3 * exp (- ((6 - b_crit)\<^sup>2) / (0.08 * b_crit)\<^sup>2))"
  have "0 \<le> exp (- ((6 - b_crit)\<^sup>2) / (0.08 * b_crit)\<^sup>2)"
    by simp
  then have raw: "1 / 3 \<le> raw"
    unfolding raw_def by (simp add: r_s_def)
  then have pos: "0 < arctan raw"
    by simp
  have "arctan raw < pi / 2"
    by (rule arctan_ubound)
  with pi_less_4 have "arctan raw * 2 \<le> 6"
    by simp
  with pos have "clamp (arctan raw * 2) 0 6 = 2 * arctan raw"
    by (simp add: clamp_def)
  moreover have "spec_DeflectionModel 6 = clamp (arctan raw * 2) 0 6"
    unfolding spec_DeflectionModel_def Let_def raw_def ..
  ultimately have "spec_DeflectionModel 6 = 2 * arctan raw"
    by simp
  moreover have "2 / (1 + raw\<^sup>2) - 1 \<le> 4 / 5"
  proof -
    have "(1 / 3)\<^sup>2 \<le> raw\<^sup>2"
      using raw by (intro power_mono) simp_all
    then have "10 / 9 \<le> 1 + raw\<^sup>2"
      by (simp add: power2_eq_square)
    then have "2 / (1 + raw\<^sup>2) \<le> 2 / (10 / 9)"
      by (intro divide_left_mono) (simp_all add: add_pos_nonneg)
    then show ?thesis
      by simp
  qed
  ultimately show ?thesis
    by (simp only: cos_double_arctan)
qed

lemma sum_list_affine:
  fixes e k :: "nat \<Rightarrow> real"
  shows "(\<Sum>n\<leftarrow>ns. e n * c * (a - d * k n))
         = c * (a * (\<Sum>n\<leftarrow>ns. e n) - d * (\<Sum>n\<leftarrow>ns. e n * k n))"
  by (induction ns) (simp_all add: algebra_simps)

lemma sum_list_scaled:
  fixes e :: "nat \<Rightarrow> real"
  shows "(\<Sum>n\<leftarrow>ns. e n * c) = c * (\<Sum>n\<leftarrow>ns. e n)"
  by (induction ns) (simp_all add: algebra_simps)

lemma sum_list_exp_pos: "ns \<noteq> [] \<Longrightarrow> 0 < (\<Sum>n\<leftarrow>ns. exp (- 4 * real n))"
proof (induction ns)
  case Nil
  then show ?case by simp
next
  case (Cons a ns)
  have "0 \<le> (\<Sum>n\<leftarrow>ns. exp (- 4 * real n))"
    by (rule sum_list_nonneg) auto
  moreover have "0 < exp (- 4 * real a)"
    by simp
  ultimately have "0 < exp (- 4 * real a) + (\<Sum>n\<leftarrow>ns. exp (- 4 * real n))"
    by (simp only: add_pos_nonneg)
  then show ?case
    by simp
qed

lemma lensed_xz_closed:
  "vx (spec_lensedAverage th (vec3 0 0 6) (vec3 0 1 0) b)
   - vz (spec_lensedAverage th (vec3 0 0 6) (vec3 0 1 0) b)
   = - 0.195 - 0.155 * ((\<Sum>n\<leftarrow>[0..<6]. exp (- 4 * real n) * cos (th b + real n * TWO_PI))
                        / (\<Sum>n\<leftarrow>[0..<6]. exp (- 4 * real n)))"
proof -
  define c where "c = exp (- \<bar>b - b_crit\<bar> / (0.1 * b_crit))"
  define E where "E = (\<Sum>n\<leftarrow>[0..<6]. exp (- 4 * real n))"
  define C where "C = (\<Sum>n\<leftarrow>[0..<6]. exp (- 4 * real n) * cos (th b + real n * TWO_PI))"
  have c: "0 < c"
    by (simp add: c_def)
  have E: "0 < E"
    unfolding E_def by (rule sum_list_exp_pos) simp
  have "vx (spec_lensedAverage th (vec3 0 0 6) (vec3 0 1 0) b)
      - vz (spec_lensedAverage th (vec3 0 0 6) (vec3 0 1 0) b)
      = (c * (- 0.195 * E - 0.155 * C)) / (c * E)"
    unfolding spec_lensedAverage_xz c_def [symmetric] sum_list_affine sum_list_scaled
      E_def C_def ..
  also have "\<dots> = - 0.195 - 0.155 * (C / E)"
    using c E by (simp add: field_simps)
  finally show ?thesis
    unfolding E_def C_def .
qed

lemma exp_minus8_le: "exp (- 8 :: real) \<le> 1 / 1521"
proof -
  have "exp (- 8 :: real) = exp (- 4) * exp (- 4)"
    by (simp add: exp_add [symmetric])
  also have "\<dots> \<le> (1 / 39) * (1 / 39)"
    by (intro mult_mono exp_minus4_le) simp_all
  finally show ?thesis
    by simp
qed

lemma weighted_cos_window:
  fixes f :: "nat \<Rightarrow> real"
  assumes "\<And>n. \<bar>f n\<bar> \<le> 1"
  shows "\<bar>(\<Sum>n\<leftarrow>[0..<6]. exp (- 4 * real n) * f n) - f 0\<bar> \<le> 3 / 100"
proof -
  have t: "\<bar>exp (- 4 * real n) * f n\<bar> \<le> exp (- 4 * real n)" for n
  proof -
    have "\<bar>exp (- 4 * real n) * f n\<bar> = exp (- 4 * real n) * \<bar>f n\<bar>"
      by (simp add: abs_mult)
    also have "\<dots> \<le> exp (- 4 * real n) * 1"
      by (intro mult_left_mono assms) simp
    finally show ?thesis
      by simp
  qed
  have e1: "exp (- 4 * real 1) \<le> 1 / 39"
    using exp_minus4_le by simp
  have e2: "exp (- 4 * real n) \<le> 1 / 1521" if "2 \<le> n" for n
  proof -
    have "exp (- 4 * real n) \<le> exp (- 8 :: real)"
      using that by simp
    then show ?thesis
      using exp_minus8_le by (rule order_trans)
  qed
  have "(\<Sum>n\<leftarrow>[0..<6]. exp (- 4 * real n) * f n) - f 0
        = exp (- 4 * real 1) * f 1 + exp (- 4 * real 2) * f 2 + exp (- 4 * real 3) * f 3
          + exp (- 4 * real 4) * f 4 + exp (- 4 * real 5) * f 5"
    by (simp add: upt_0_6)
  then show ?thesis
    using t [of 1] t [of 2] t [of 3] t [of 4] t [of 5] e1 e2 [of 2] e2 [of 3] e2 [of 4] e2 [of 5]
    by linarith
qed

text \<open>
  Claim C2, as the code has it, over the reals. For every origin, direction and
  \<open>b > b_crit\<close> with an axis at least \<open>1e-6\<close> long, the loop of \<open>sampleLensedSky\<close>
  accumulates exactly the orders \<open>n = 0..5\<close>: \<^verbatim>\<open>accum\<close> is the sum of the six weighted
  samples and \<^verbatim>\<open>totalWeight\<close> the sum of the six weights, where order \<open>n\<close> samples
  \<open>skyColor\<close> of the normalized direction rotated about the normalized axis by
  \<open>\<theta>(b) + n TWO_PI\<close> and has the weight \<open>exp(- 4 n) exp(- |b - b_crit| / (0.1 b_crit))\<close>. Here
  \<open>\<theta>\<close> is \<open>deflectionAngleApprox\<close>, that is
  \<open>clamp(0.25 r_s / (clamp((b - b_crit) / (0.2 b_crit), -5, 5)\<^sup>2 + 0.001), 0, 20)\<close>, and not the
  deflection model used while marching: the theorem after the next gives an input where the
  two averages differ. The result is \<^verbatim>\<open>accum / totalWeight\<close> when \<^verbatim>\<open>totalWeight > 0\<close> and
  \<open>skyColor\<close> of the normalized direction otherwise. In exact arithmetic \<^verbatim>\<open>totalWeight\<close> is
  positive there, so the result is the weight-normalized average. Nothing is said about
  \<^verbatim>\<open>float\<close> arithmetic, where the weights can underflow to zero for large \<open>b\<close> and the
  last conditional then takes its \<open>skyColor\<close> branch.
\<close>

theorem sampleLensedSky_orders:
  assumes "b_crit < b" and "1 / 10 ^ 6 \<le> vlength (cross (normalize_vec D) ro)"
  shows "(let Dn = normalize_vec D;
              axis = normalize_vec (cross Dn ro);
              r = lensLoop Dn axis b 0 (vsplat 0, 0)
          in fst r = foldl vadd (vec3 0 0 0) (map (orderSample Dn axis b) [0..<6])
             \<and> snd r = sum_list (map (orderWeight b) [0..<6])
             \<and> sampleLensedSky ro D b =
                 (if 0 < snd r then vdiv (fst r) (snd r) else skyColor Dn)
             \<and> 0 < snd r)
         \<and> sampleLensedSky ro D b =
             spec_lensedAverage (\<lambda>b. deflectionAngleApprox b r_s b_crit) ro D b
         \<and> deflectionAngleApprox b r_s b_crit =
             clamp (0.25 * r_s / ((clamp ((b - b_crit) / (0.2 * b_crit)) (- 5) 5)\<^sup>2 + 0.001)) 0 20"
proof (intro conjI)
  let ?Dn = "normalize_vec D"
  let ?axis = "normalize_vec (cross ?Dn ro)"
  let ?r = "lensLoop ?Dn ?axis b 0 (vsplat 0, 0)"
  have six: "Suc MAX_ORDERS = 6"
    by (simp add: MAX_ORDERS_def)
  have r: "?r = (foldl vadd (vec3 0 0 0) (map (orderSample ?Dn ?axis b) [0..<6]),
                 sum_list (map (orderWeight b) [0..<6]))"
    unfolding lensLoop_closed six by (simp add: vsplat_def)
  have pos: "0 < snd ?r"
    by (rule totalWeight_pos)
  have res: "sampleLensedSky ro D b = (if 0 < snd ?r then vdiv (fst ?r) (snd ?r) else skyColor ?Dn)"
  proof -
    obtain acc tw where p: "?r = (acc, tw)"
      by (cases ?r)
    then have "lensLoop ?Dn (vdiv (cross ?Dn ro) (vlength (cross ?Dn ro))) b 0 (vsplat 0, 0)
               = (acc, tw)"
      by (simp only: normalize_vec_def [of "cross ?Dn ro"])
    with assms show ?thesis
      by (simp add: sampleLensedSky_def Let_def p)
  qed
  show "let Dn = normalize_vec D;
            axis = normalize_vec (cross Dn ro);
            r = lensLoop Dn axis b 0 (vsplat 0, 0)
        in fst r = foldl vadd (vec3 0 0 0) (map (orderSample Dn axis b) [0..<6])
           \<and> snd r = sum_list (map (orderWeight b) [0..<6])
           \<and> sampleLensedSky ro D b =
               (if 0 < snd r then vdiv (fst r) (snd r) else skyColor Dn)
           \<and> 0 < snd r"
    unfolding Let_def using r res pos by simp
  show "sampleLensedSky ro D b =
      spec_lensedAverage (\<lambda>b. deflectionAngleApprox b r_s b_crit) ro D b"
    by (simp only: sampleLensedSky_closed [OF assms] spec_lensedAverage_closed)
  show "deflectionAngleApprox b r_s b_crit =
      clamp (0.25 * r_s / ((clamp ((b - b_crit) / (0.2 * b_crit)) (- 5) 5)\<^sup>2 + 0.001)) 0 20"
    by (simp add: deflectionAngleApprox_def Let_def power2_eq_square mult.commute)
qed

theorem sampleLensedSky_orders_witness:
  "b_crit < 6
   \<and> 1 / 10 ^ 6 \<le> vlength (cross (normalize_vec (vec3 0 1 0)) (vec3 0 0 6))
   \<and> snd (lensLoop (vec3 0 1 0) (vec3 1 0 0) 6 0 (vsplat 0, 0))
       = sum_list (map (orderWeight 6) [0..<6])
   \<and> 0 < snd (lensLoop (vec3 0 1 0) (vec3 1 0 0) 6 0 (vsplat 0, 0))
   \<and> sampleLensedSky (vec3 0 0 6) (vec3 0 1 0) 6 =
       vdiv (fst (lensLoop (vec3 0 1 0) (vec3 1 0 0) 6 0 (vsplat 0, 0)))
            (snd (lensLoop (vec3 0 1 0) (vec3 1 0 0) 6 0 (vsplat 0, 0)))
   \<and> sampleLensedSky (vec3 0 0 6) (vec3 0 1 0) 6 =
       spec_lensedAverage (\<lambda>b. deflectionAngleApprox b r_s b_crit) (vec3 0 0 6) (vec3 0 1 0) 6
   \<and> deflectionAngleApprox 6 r_s b_crit = 250 / 25001"
proof -
  have h1: "b_crit < 6"
    by (simp add: b_crit_def r_s_def)
  have h2: "1 / 10 ^ 6 \<le> vlength (cross (normalize_vec (vec3 0 1 0)) (vec3 0 0 6))"
    by (simp add: frame_y_z(1)) (simp add: cross_def vlength_def dot_def sqrt36)
  note t = sampleLensedSky_orders [OF h1 h2, unfolded Let_def frame_y_z]
  from t have a: "snd (lensLoop (vec3 0 1 0) (vec3 1 0 0) 6 0 (vsplat 0, 0))
       = sum_list (map (orderWeight 6) [0..<6])"
    by blast
  from t have b: "0 < snd (lensLoop (vec3 0 1 0) (vec3 1 0 0) 6 0 (vsplat 0, 0))"
    by blast
  from t have "sampleLensedSky (vec3 0 0 6) (vec3 0 1 0) 6 =
       (if 0 < snd (lensLoop (vec3 0 1 0) (vec3 1 0 0) 6 0 (vsplat 0, 0))
        then vdiv (fst (lensLoop (vec3 0 1 0) (vec3 1 0 0) 6 0 (vsplat 0, 0)))
            (snd (lensLoop (vec3 0 1 0) (vec3 1 0 0) 6 0 (vsplat 0, 0)))
        else skyColor (vec3 0 1 0))"
    by blast
  with b have c: "sampleLensedSky (vec3 0 0 6) (vec3 0 1 0) 6 =
       vdiv (fst (lensLoop (vec3 0 1 0) (vec3 1 0 0) 6 0 (vsplat 0, 0)))
            (snd (lensLoop (vec3 0 1 0) (vec3 1 0 0) 6 0 (vsplat 0, 0)))"
    by simp
  from t have d: "sampleLensedSky (vec3 0 0 6) (vec3 0 1 0) 6 =
       spec_lensedAverage (\<lambda>b. deflectionAngleApprox b r_s b_crit) (vec3 0 0 6) (vec3 0 1 0) 6"
    by blast
  from h1 h2 a b c d approx_at_6 show ?thesis
    by blast
qed

theorem lensed_orders_counterexample:
  "b_crit < 6
   \<and> 1 / 10 ^ 6 \<le> vlength (cross (normalize_vec (vec3 0 1 0)) (vec3 0 0 6))
   \<and> sampleLensedSky (vec3 0 0 6) (vec3 0 1 0) 6
       \<noteq> spec_lensedAverage spec_DeflectionModel (vec3 0 0 6) (vec3 0 1 0) 6"
proof -
  let ?ro = "vec3 0 0 6" and ?D = "vec3 0 1 0"
  let ?approx = "\<lambda>b. deflectionAngleApprox b r_s b_crit"
  define E where "E = (\<Sum>n\<leftarrow>[0..<6]. exp (- 4 * real n))"
  define C where "C th = (\<Sum>n\<leftarrow>[0..<6]. exp (- 4 * real n) * cos (th + real n * TWO_PI))"
    for th :: real
  have h1: "b_crit < 6"
    by (simp add: b_crit_def r_s_def)
  have h2: "1 / 10 ^ 6 \<le> vlength (cross (normalize_vec ?D) ?ro)"
    by (simp add: frame_y_z(1)) (simp add: cross_def vlength_def dot_def sqrt36)
  have E: "0 < E"
    unfolding E_def by (rule sum_list_exp_pos) simp
  have code: "sampleLensedSky ?ro ?D 6 = spec_lensedAverage ?approx ?ro ?D 6"
    by (simp only: sampleLensedSky_closed [OF h1 h2] spec_lensedAverage_closed)
  have wc: "\<bar>C th - cos th\<bar> \<le> 3 / 100" for th
    using weighted_cos_window [of "\<lambda>n. cos (th + real n * TWO_PI)"]
    by (simp add: C_def)
  have g: "vx (spec_lensedAverage th ?ro ?D 6) - vz (spec_lensedAverage th ?ro ?D 6)
           = - 0.195 - 0.155 * (C (th 6) / E)" for th
    unfolding C_def E_def by (rule lensed_xz_closed)
  have "spec_lensedAverage ?approx ?ro ?D 6 \<noteq> spec_lensedAverage spec_DeflectionModel ?ro ?D 6"
  proof
    assume eq: "spec_lensedAverage ?approx ?ro ?D 6
                = spec_lensedAverage spec_DeflectionModel ?ro ?D 6"
    have "vx (spec_lensedAverage ?approx ?ro ?D 6) - vz (spec_lensedAverage ?approx ?ro ?D 6)
          = vx (spec_lensedAverage spec_DeflectionModel ?ro ?D 6)
            - vz (spec_lensedAverage spec_DeflectionModel ?ro ?D 6)"
      by (simp only: eq)
    then have "- 0.195 - 0.155 * (C (deflectionAngleApprox 6 r_s b_crit) / E)
          = - 0.195 - 0.155 * (C (spec_DeflectionModel 6) / E)"
      by (simp only: g)
    then have "C (deflectionAngleApprox 6 r_s b_crit) / E = C (spec_DeflectionModel 6) / E"
      by simp
    then have "C (deflectionAngleApprox 6 r_s b_crit) = C (spec_DeflectionModel 6)"
      using E by simp
    with wc [of "deflectionAngleApprox 6 r_s b_crit"] wc [of "spec_DeflectionModel 6"]
      cos_approx_at_6 cos_spec_at_6
    show False
      by linarith
  qed
  with h1 h2 code show ?thesis
    by simp
qed

end
